theory Spec2Isabelle
  imports Main "HOL-Library.Sublist"
begin

section \<open>paramount: parallel NFS mount harness (paramount.cpp, tempdir.hpp)\<close>

text \<open>
  The program creates \<open>threads\<close> server directories and as many client directories under a
  fresh temporary directory, writes an NFS export table for the server directories, runs
  \<open>exportfs -ra\<close>, mounts every pair from a pool of threads released by a barrier, scans
  \<open>/proc/self/mounts\<close>, and cleans up.

  The model is sequential. Paths and file contents are byte strings. The disk, the export
  file, the external commands run, the error stream and the global \<open>cleanup\<close> slot form an
  explicit state (\<open>world\<close>), passed through every operation. What the operating system and
  the external utilities answer is a parameter (\<open>env\<close>). The narration printed under
  \<open>--verbose\<close> goes to the standard stream only and decides nothing; it is left out.
\<close>

subsection \<open>Characters the source writes as escapes\<close>

definition TAB :: char where "TAB = CHR 0x09"
definition NL :: char where "NL = CHR 0x0A"
definition DQUOTE :: char where "DQUOTE = CHR 0x22"
definition SQUOTE :: char where "SQUOTE = CHR 0x27"
definition BACKSLASH :: char where "BACKSLASH = CHR 0x5C"
definition SPACE :: char where "SPACE = CHR 0x20"

subsection \<open>Number formatting: \<open>{:04}\<close>, \<open>{:04x}\<close> and \<open>operator<<\<close> on an int\<close>

text \<open>
  \<open>fmt\<close> prints a non-negative integer in positional notation, most significant digit first,
  lower-case digits for base 16; a width of 4 with the \<open>0\<close> flag pads on the left with zeros
  up to four characters and never truncates.
\<close>

definition digit_char :: "nat \<Rightarrow> char" where
  "digit_char n = ''0123456789abcdef'' ! (n mod 16)"

fun radix :: "nat \<Rightarrow> nat \<Rightarrow> string" where
  "radix b n = (if b < 2 \<or> n < b then [digit_char n]
                else radix b (n div b) @ [digit_char (n mod b)])"

declare radix.simps [simp del]

definition pad0 :: "nat \<Rightarrow> string \<Rightarrow> string" where
  "pad0 w s = replicate (w - length s) (CHR ''0'') @ s"

definition fmt_d :: "nat \<Rightarrow> string" where
  "fmt_d n = radix 10 n"

definition fmt_04 :: "nat \<Rightarrow> string" where
  "fmt_04 n = pad0 4 (radix 10 n)"

definition fmt_04x :: "nat \<Rightarrow> string" where
  "fmt_04x n = pad0 4 (radix 16 n)"

subsection \<open>Paths\<close>

type_synonym path = string

text \<open>
  \<open>std::filesystem::path::operator/\<close>: an absolute right operand replaces the left one;
  otherwise a separator is inserted unless the left operand is empty or already ends in one.
\<close>

definition path_append :: "path \<Rightarrow> path \<Rightarrow> path" where
  "path_append p q =
     (if q \<noteq> [] \<and> hd q = CHR ''/'' then q
      else if p = [] \<or> last p = CHR ''/'' then p @ q
      else p @ ''/'' @ q)"

text \<open>
  \<open>operator<<\<close> on a \<open>std::filesystem::path\<close> writes \<open>std::quoted(p.string())\<close>: the text
  between double quotes, with every double quote and backslash preceded by a backslash.
\<close>

definition quoted :: "string \<Rightarrow> string" where
  "quoted s = DQUOTE # concat (map (\<lambda>c. if c = DQUOTE \<or> c = BACKSLASH then [BACKSLASH, c] else [c]) s)
              @ [DQUOTE]"

subsection \<open>\<open>boost::split(fields, line, is_any_of(" "), token_compress_on)\<close>\<close>

text \<open>
  The tokens are the pieces of the line between maximal runs of spaces. A run at the start or
  at the end of the line leaves an empty token there, and the empty line has the one token
  \<open>""\<close>: the result is never empty.
\<close>

fun split_fields :: "string \<Rightarrow> string list" where
  "split_fields [] = [[]]"
| "split_fields (c # cs) =
     (if c = SPACE then
        (if cs \<noteq> [] \<and> hd cs = SPACE then split_fields cs else [] # split_fields cs)
      else (case split_fields cs of
              [] \<Rightarrow> [[c]]
            | t # ts \<Rightarrow> (c # t) # ts))"

subsection \<open>State, environment and outcomes\<close>

datatype command =
    ExportfsRA                 \<comment> \<open>\<open>exportfs -ra\<close>\<close>
  | MountNfs nat path path     \<comment> \<open>worker, server directory, client directory\<close>
  | UmountAllNfs               \<comment> \<open>\<open>umount -a -t nfs -l\<close>\<close>

record world =
  dirs :: "path set"               \<comment> \<open>directories that exist\<close>
  exports_file :: "string option"  \<comment> \<open>content of /etc/exports.d/paramount.exports, if it exists\<close>
  cmds :: "command list"           \<comment> \<open>external commands launched so far, oldest first\<close>
  err :: "string list"             \<comment> \<open>lines written to std::cerr\<close>
  cleanup_set :: bool              \<comment> \<open>the global \<open>std::optional<clean_function> cleanup\<close> holds a value\<close>

record env =
  mkdir_ec :: "path \<Rightarrow> int"        \<comment> \<open>error code of creating a directory that does not exist; 0: created\<close>
  sigaction_errno :: int           \<comment> \<open>0: the handler was installed\<close>
  exports_open_ok :: bool          \<comment> \<open>the export file could be opened for writing\<close>
  exportfs_ec :: "nat \<Rightarrow> int"      \<comment> \<open>\<open>ec.value()\<close> after the k-th run of exportfs (k from 0)\<close>
  mount_ec :: "nat \<Rightarrow> int"         \<comment> \<open>\<open>ec.value()\<close> after worker d's mount command\<close>
  proc_mounts :: "string list option"  \<comment> \<open>lines of /proc/self/mounts; None: it cannot be opened\<close>
  umount_ec :: "nat \<Rightarrow> int"        \<comment> \<open>error of launching umount in the k-th run of the cleanup closure; 0: launched\<close>
  remove_ec :: "nat \<Rightarrow> int"        \<comment> \<open>error of \<open>fs::remove(exports)\<close> in the k-th run of the closure; 0: none\<close>
  remove_all_ec :: "nat \<Rightarrow> int"    \<comment> \<open>error of \<open>fs::remove_all(dir_)\<close> called after k umount commands; 0: none\<close>
  strerror :: "int \<Rightarrow> string"

text \<open>
  How a computation can stop short of returning: \<open>exit(code)\<close>; a thrown \<open>std::exception\<close>
  with its \<open>what()\<close>; blocking for ever; undefined behaviour (an index past the end of a
  vector, signed overflow). An exception that nothing catches, or that leaves a destructor,
  ends the process through \<open>std::terminate\<close>: it is the outcome \<open>Exception\<close> of main.
\<close>

datatype stop = Exit int | Exception string | Blocked | Undefined

type_synonym 'a res = "(stop \<times> world) + ('a \<times> world)"

definition error :: "string \<Rightarrow> world \<Rightarrow> 'a res" where
  "error msg w = Inl (Exit 1, w\<lparr>err := err w @ [msg]\<rparr>)"

definition error_sys :: "env \<Rightarrow> int \<Rightarrow> string \<Rightarrow> world \<Rightarrow> 'a res" where
  "error_sys e syserr msg w = Inl (Exit 1, w\<lparr>err := err w @ [msg @ '': '' @ strerror e syserr]\<rparr>)"

text \<open>
  The text of the exceptions the libraries throw. A stream with \<open>failbit\<close> in its exception
  mask throws \<open>std::ios_base::failure\<close>; the throwing overloads of \<open>std::filesystem\<close> throw
  \<open>filesystem_error\<close>, whose text names the operation, the system error and the path;
  \<open>bp::system\<close> called without an error code throws \<open>process_error\<close> when the command cannot
  be launched; \<open>boost::barrier\<close> throws \<open>thread_exception\<close>, a \<open>system_error\<close> for
  \<open>EINVAL\<close> (recent Boost versions add the category and the value of the code to the text).
\<close>

definition ios_failure_what :: string where
  "ios_failure_what = ''basic_ios::clear: iostream error''"

definition filesystem_error_what :: "env \<Rightarrow> string \<Rightarrow> int \<Rightarrow> path \<Rightarrow> string" where
  "filesystem_error_what e what_arg ec p =
     ''filesystem error: '' @ what_arg @ '': '' @ strerror e ec @ '' ['' @ p @ '']''"

definition process_error_what :: "env \<Rightarrow> int \<Rightarrow> string" where
  "process_error_what e ec = ''execve failed: '' @ strerror e ec"

definition barrier_error_what :: "env \<Rightarrow> string" where
  "barrier_error_what e = ''barrier constructor: count cannot be zero.: '' @ strerror e 22"

subsection \<open>The scan of the mount table (paramount.cpp, lines 257 to 279)\<close>

definition not_found_msg :: "string \<Rightarrow> string" where
  "not_found_msg m = ''Mount '' @ [SQUOTE] @ m @ [SQUOTE] @ '' not found in map''"

definition mismatch_msg :: "string \<Rightarrow> string \<Rightarrow> string \<Rightarrow> string" where
  "mismatch_msg m c found =
     ''Mount '' @ [SQUOTE] @ m @ [SQUOTE] @ '' expected mountpoint '' @ c @ '' found '' @ found"

text \<open>One iteration of the loop over \<open>mline\<close>. \<open>fields[1]\<close> is read first, unchecked.\<close>

definition check_mount :: "(string \<rightharpoonup> string) \<Rightarrow> string \<Rightarrow> world \<Rightarrow> unit res" where
  "check_mount m_to_c mount w =
     (let fields = split_fields mount in
      if length fields < 2 then Inl (Undefined, w)
      else if fields ! 1 \<noteq> ''nfs'' \<and> fields ! 1 \<noteq> ''nfs4'' then Inr ((), w)
      else
        (let m = fields ! 0; c = fields ! 1 in
         case m_to_c m of
           None \<Rightarrow> error (not_found_msg m) w
         | Some second \<Rightarrow>
             if second \<noteq> c then error (mismatch_msg m c second) w
             else Inr ((), w)))"

fun scan_mounts :: "(string \<rightharpoonup> string) \<Rightarrow> string list \<Rightarrow> world \<Rightarrow> unit res" where
  "scan_mounts m_to_c [] w = Inr ((), w)"
| "scan_mounts m_to_c (mount # rest) w =
     (case check_mount m_to_c mount w of
        Inl s \<Rightarrow> Inl s
      | Inr (u, w') \<Rightarrow> scan_mounts m_to_c rest w')"

subsection \<open>TemporaryDirectory (tempdir.hpp)\<close>

text \<open>The members \<open>dir_\<close> and \<open>preserve_\<close> of the class.\<close>

record TemporaryDirectory =
  dir_m :: path
  preserve_m :: bool

text \<open>
  The constructor: \<open>mkdtemp\<close> makes a fresh directory and answers its name, or fails and the
  constructor throws.
\<close>

definition Create :: "path option \<Rightarrow> world \<Rightarrow> TemporaryDirectory res" where
  "Create made w =
     (case made of
        None \<Rightarrow> Inl (Exception ''Failed to create tmp dir'', w)
      | Some tmp \<Rightarrow> Inr (\<lparr>dir_m = tmp, preserve_m = False\<rparr>, w\<lparr>dirs := insert tmp (dirs w)\<rparr>))"

definition Dir :: "TemporaryDirectory \<Rightarrow> path" where
  "Dir t = dir_m t"

definition PreserveContents :: "TemporaryDirectory \<Rightarrow> TemporaryDirectory" where
  "PreserveContents t = t\<lparr>preserve_m := True\<rparr>"

definition DiscardContents :: "TemporaryDirectory \<Rightarrow> TemporaryDirectory" where
  "DiscardContents t = t\<lparr>preserve_m := False\<rparr>"

text \<open>\<open>under d p\<close>: \<open>p\<close> is the directory \<open>d\<close> or lies below it.\<close>

definition under :: "path \<Rightarrow> path \<Rightarrow> bool" where
  "under d p = (p = d \<or> d \<noteq> [] \<and> prefix (path_append d []) p)"

definition remove_all :: "path \<Rightarrow> path set \<Rightarrow> path set" where
  "remove_all d S = {p \<in> S. \<not> under d p}"

text \<open>
  \<open>DeleteNow\<close> calls the throwing overload of \<open>fs::remove_all\<close>. A directory that is not
  there is no error. What a failed call had already deleted is not recorded.
\<close>

definition DeleteNow :: "env \<Rightarrow> TemporaryDirectory \<Rightarrow> world \<Rightarrow> unit res" where
  "DeleteNow e t w =
     (if \<not> preserve_m t \<and> dir_m t \<noteq> [] then
        (let ec = remove_all_ec e (count_list (cmds w) UmountAllNfs) in
         if ec \<noteq> 0
         then Inl (Exception (filesystem_error_what e ''cannot remove all'' ec (dir_m t)), w)
         else Inr ((), w\<lparr>dirs := remove_all (dir_m t) (dirs w)\<rparr>))
      else Inr ((), w))"

subsection \<open>Sequencing\<close>

definition bind_res :: "'a res \<Rightarrow> ('a \<Rightarrow> world \<Rightarrow> 'b res) \<Rightarrow> 'b res" where
  "bind_res r f = (case r of Inl s \<Rightarrow> Inl s | Inr (a, w) \<Rightarrow> f a w)"

subsection \<open>Options\<close>

record Context =
  preserve_temp :: bool
  threads :: int
  verbose :: bool

subsection \<open>Directories (paramount.cpp, lines 139 to 155 and 180 to 196)\<close>

text \<open>
  \<open>std::filesystem::create_directory(p, ec)\<close> answers true when it created the directory. When
  the directory exists already it answers false and leaves \<open>ec\<close> clear.
\<close>

definition create_directory :: "env \<Rightarrow> path \<Rightarrow> world \<Rightarrow> (bool \<times> int) \<times> world" where
  "create_directory e p w =
     (if p \<in> dirs w then ((False, 0), w)
      else if mkdir_ec e p \<noteq> 0 then ((False, mkdir_ec e p), w)
      else ((True, 0), w\<lparr>dirs := insert p (dirs w)\<rparr>))"

text \<open>
  The two loops \<open>for (int d = 0; d < ctx.threads; d++)\<close> that create the numbered
  directories differ in the parent directory and in the text of the diagnostic only; \<open>what\<close>
  is that text, \<open>acc\<close> the vector built so far.
\<close>

definition numbered :: "path \<Rightarrow> nat \<Rightarrow> path" where
  "numbered parent d = path_append parent (''d'' @ fmt_04 d)"

function create_numbered_dirs ::
  "env \<Rightarrow> string \<Rightarrow> path \<Rightarrow> int \<Rightarrow> nat \<Rightarrow> path list \<Rightarrow> world \<Rightarrow> (path list) res" where
  "create_numbered_dirs e what parent n d acc w =
     (if int d < n then
        (let newdir = numbered parent d in
         case create_directory e newdir w of
           ((ok, ec), w') \<Rightarrow>
             if \<not> ok then error_sys e ec (what @ newdir) w'
             else create_numbered_dirs e what parent n (Suc d) (acc @ [newdir]) w')
      else Inr (acc, w))"
  by pat_completeness auto
termination
  by (relation "measure (\<lambda>(e, what, parent, n, d, acc, w). nat n - d)") auto

declare create_numbered_dirs.simps [simp del]

definition create_root_and_dirs ::
  "env \<Rightarrow> string \<Rightarrow> string \<Rightarrow> path \<Rightarrow> int \<Rightarrow> world \<Rightarrow> (path list) res" where
  "create_root_and_dirs e what_root what rootdir n w =
     (case create_directory e rootdir w of
        ((ok, ec), w') \<Rightarrow>
          if \<not> ok then error_sys e ec (what_root @ rootdir) w'
          else create_numbered_dirs e what rootdir n 0 [] w')"

definition create_mount_dirs :: "env \<Rightarrow> path \<Rightarrow> int \<Rightarrow> world \<Rightarrow> (path list) res" where
  "create_mount_dirs e tmpdir n w =
     create_root_and_dirs e ''Failed to create mount root directory ''
       ''Failed to create mount directory '' (path_append tmpdir ''mount'') n w"

definition create_client_dirs :: "env \<Rightarrow> path \<Rightarrow> int \<Rightarrow> world \<Rightarrow> (path list) res" where
  "create_client_dirs e tmpdir n w =
     create_root_and_dirs e ''Failed to create client root directory ''
       ''Failed to create client directory '' (path_append tmpdir ''client'') n w"

subsection \<open>The export table (paramount.cpp, lines 157 to 175)\<close>

definition fsid :: "nat \<Rightarrow> string" where
  "fsid d = ''00000000-0000-0000-0000-00000000'' @ fmt_04x d"

definition export_opts :: "string \<Rightarrow> string" where
  "export_opts us = ''rw,no_subtree_check,no_root_squash,fsid='' @ us"

text \<open>What one iteration sends to the stream: \<open>ef << mdir[d] << "\t*(" << opts << ")\n"\<close>.\<close>

definition export_entry :: "path \<Rightarrow> string \<Rightarrow> string" where
  "export_entry md opts = quoted md @ [TAB] @ ''*('' @ opts @ '')''"

definition BEGIN_MARK :: string where "BEGIN_MARK = ''### BEGIN paramount''"
definition END_MARK :: string where "END_MARK = ''### END paramount''"

function write_entries ::
  "path list \<Rightarrow> int \<Rightarrow> nat \<Rightarrow> string list \<Rightarrow> string \<Rightarrow> (string list \<times> string) option" where
  "write_entries mdir n d muuid ef =
     (if int d < n then
        (if d < length mdir then
           (let us = fsid d; opts = export_opts us in
            write_entries mdir n (Suc d) (muuid @ [us]) (ef @ export_entry (mdir ! d) opts @ [NL]))
         else None)
      else Some (muuid, ef))"
  by pat_completeness auto
termination
  by (relation "measure (\<lambda>(mdir, n, d, muuid, ef). nat n - d)") auto

declare write_entries.simps [simp del]

text \<open>
  The stream throws on \<open>failbit\<close>, which a failed \<open>open\<close> sets; the file is truncated and
  rewritten. \<open>mdir[d]\<close> past the end of the vector is undefined behaviour.
\<close>

definition write_exports :: "env \<Rightarrow> path list \<Rightarrow> int \<Rightarrow> world \<Rightarrow> (string list) res" where
  "write_exports e mdir n w =
     (if \<not> exports_open_ok e then Inl (Exception ios_failure_what, w)
      else
        (case write_entries mdir n 0 [] (BEGIN_MARK @ [NL]) of
           None \<Rightarrow> Inl (Undefined, w)
         | Some (muuid, ef) \<Rightarrow> Inr (muuid, w\<lparr>exports_file := Some (ef @ END_MARK @ [NL])\<rparr>)))"

text \<open>
  \<open>exportfs\<close>: the value \<open>bp::system\<close> returns is dropped; the run is stopped when the error
  code it filled in is not zero.
\<close>

definition exportfs :: "env \<Rightarrow> world \<Rightarrow> bool res" where
  "exportfs e w =
     (let k = count_list (cmds w) ExportfsRA;
          w' = w\<lparr>cmds := cmds w @ [ExportfsRA]\<rparr> in
      if exportfs_ec e k \<noteq> 0 then error_sys e (exportfs_ec e k) ''exportfs failed'' w'
      else Inr (True, w'))"

subsection \<open>The expected map (paramount.cpp, lines 198 to 201)\<close>

function map_together ::
  "path list \<Rightarrow> path list \<Rightarrow> int \<Rightarrow> nat \<Rightarrow> (string \<rightharpoonup> string) \<Rightarrow> (string \<rightharpoonup> string) option" where
  "map_together mdir cdir n d m_to_c =
     (if int d < n then
        (if d < length mdir \<and> d < length cdir then
           map_together mdir cdir n (Suc d) (m_to_c(mdir ! d \<mapsto> cdir ! d))
         else None)
      else Some m_to_c)"
  by pat_completeness auto
termination
  by (relation "measure (\<lambda>(mdir, cdir, n, d, m_to_c). nat n - d)") auto

declare map_together.simps [simp del]

subsection \<open>The mounters (paramount.cpp, lines 203 to 242)\<close>

text \<open>
  \<open>boost::barrier(unsigned count)\<close> is built with \<open>ctx.threads + 1\<close>: a count of zero throws,
  and \<open>INT_MAX + 1\<close> overflows.
\<close>

definition make_barrier :: "env \<Rightarrow> int \<Rightarrow> world \<Rightarrow> unit res" where
  "make_barrier e n w =
     (if 2147483647 \<le> n then Inl (Undefined, w)
      else if n + 1 = 0 then Inl (Exception (barrier_error_what e), w)
      else Inr ((), w))"

text \<open>
  The launcher waits on the barrier after starting one worker for every \<open>d\<close> with
  \<open>0 \<le> d < threads\<close>. For \<open>threads \<ge> 0\<close> these are the \<open>threads + 1\<close> parties the barrier counts.
  For \<open>threads < -1\<close> the count, read as unsigned, is above one and the launcher is the only
  party: it waits for ever.
\<close>

definition start_barrier_wait :: "int \<Rightarrow> world \<Rightarrow> unit res" where
  "start_barrier_wait n w = (if n + 1 < 0 then Inl (Blocked, w) else Inr ((), w))"

text \<open>
  The workers, in the order of their index (the order in which they really run is free).
  Each runs its mount command and returns \<open>ec.value()\<close>; the launcher collects the futures
  in the same order.
\<close>

function run_mounters ::
  "env \<Rightarrow> path list \<Rightarrow> path list \<Rightarrow> string list \<Rightarrow> int \<Rightarrow> nat \<Rightarrow> int list \<Rightarrow> world \<Rightarrow> (int list) res"
  where
  "run_mounters e mdir cdir muuid n d got w =
     (if int d < n then
        (if d < length cdir \<and> d < length mdir \<and> d < length muuid then
           (let w' = w\<lparr>cmds := cmds w @ [MountNfs d (mdir ! d) (cdir ! d)]\<rparr>;
                r = (if mount_ec e d \<noteq> 0 then mount_ec e d else 0) in
            run_mounters e mdir cdir muuid n (Suc d) (got @ [r]) w')
         else Inl (Undefined, w))
      else Inr (got, w))"
  by pat_completeness auto
termination
  by (relation "measure (\<lambda>(e, mdir, cdir, muuid, n, d, got, w). nat n - d)") auto

declare run_mounters.simps [simp del]

fun count_failures :: "int list \<Rightarrow> int \<Rightarrow> int" where
  "count_failures [] failures = failures"
| "count_failures (r # rs) failures = count_failures rs (if r \<noteq> 0 then failures + 1 else failures)"

definition report_failures :: "int \<Rightarrow> world \<Rightarrow> world" where
  "report_failures failures w =
     (if failures \<noteq> 0 then w\<lparr>err := err w @ [''Got '' @ fmt_d (nat failures) @ '' mount failures'']\<rparr>
      else w)"

subsection \<open>The body of the try block (paramount.cpp, lines 135 to 281)\<close>

definition read_mounts :: "env \<Rightarrow> world \<Rightarrow> (string list) res" where
  "read_mounts e w =
     (case proc_mounts e of
        None \<Rightarrow> Inl (Exception ios_failure_what, w)
      | Some mline \<Rightarrow> Inr (mline, w))"

definition try_block :: "Context \<Rightarrow> path \<Rightarrow> env \<Rightarrow> world \<Rightarrow> unit res" where
  "try_block ctx tmpdir e w =
     bind_res (create_mount_dirs e tmpdir (threads ctx) w) (\<lambda>mdir w.
     bind_res (write_exports e mdir (threads ctx) w) (\<lambda>muuid w.
     bind_res (exportfs e w) (\<lambda>ok w.
     bind_res (create_client_dirs e tmpdir (threads ctx) w) (\<lambda>cdir w.
     (case map_together mdir cdir (threads ctx) 0 Map.empty of
        None \<Rightarrow> Inl (Undefined, w)
      | Some m_to_c \<Rightarrow>
          bind_res (make_barrier e (threads ctx) w) (\<lambda>u w.
          bind_res (start_barrier_wait (threads ctx) w) (\<lambda>u w.
          bind_res (run_mounters e mdir cdir muuid (threads ctx) 0 [] w) (\<lambda>got w.
          bind_res (read_mounts e (report_failures (count_failures got 0) w)) (\<lambda>mline w.
          scan_mounts m_to_c mline w)))))))))"

subsection \<open>Cleanup, the signal handler and main\<close>

definition exports :: path where
  "exports = ''/etc/exports.d/paramount.exports''"

text \<open>
  The closure stored in \<open>cleanup\<close> (lines 115 to 124). \<open>bp::system\<close> is called without an
  error code here and throws when umount cannot be launched; the value it returns is
  dropped. \<open>fs::remove\<close> is the throwing overload; a file that is not there is no error.
  Then \<open>exportfs\<close>, which may call \<open>exit(1)\<close>, and \<open>DeleteNow\<close>.
\<close>

definition cleanup :: "TemporaryDirectory \<Rightarrow> env \<Rightarrow> world \<Rightarrow> unit res" where
  "cleanup tdobj e w =
     (let k = count_list (cmds w) UmountAllNfs;
          w1 = w\<lparr>cmds := cmds w @ [UmountAllNfs]\<rparr> in
      if umount_ec e k \<noteq> 0 then Inl (Exception (process_error_what e (umount_ec e k)), w1)
      else if remove_ec e k \<noteq> 0
      then Inl (Exception (filesystem_error_what e ''cannot remove'' (remove_ec e k) exports), w1)
      else
        (let w2 = w1\<lparr>exports_file := None\<rparr> in
         bind_res (exportfs e w2) (\<lambda>ok w3. DeleteNow e tdobj w3)))"

definition sig_handler :: "TemporaryDirectory \<Rightarrow> env \<Rightarrow> world \<Rightarrow> unit res" where
  "sig_handler tdobj e w =
     (if cleanup_set w then
        bind_res (cleanup tdobj e w) (\<lambda>u w'. Inr ((), w'\<lparr>cleanup_set := False\<rparr>))
      else Inr ((), w))"

text \<open>Lines 287 to 289: the call at the end of main. The slot is left as it is.\<close>

definition final_cleanup :: "TemporaryDirectory \<Rightarrow> env \<Rightarrow> world \<Rightarrow> unit res" where
  "final_cleanup tdobj e w = (if cleanup_set w then cleanup tdobj e w else Inr ((), w))"

text \<open>Lines 107 to 110: \<open>--preserve\<close> is passed on to the temporary directory.\<close>

definition configure_tdobj :: "Context \<Rightarrow> TemporaryDirectory \<Rightarrow> TemporaryDirectory" where
  "configure_tdobj ctx td = (if preserve_temp ctx then PreserveContents td else td)"

text \<open>
  \<open>return exit_code\<close>: the flag is a \<open>bool\<close>, returned as 0 or 1, and the destructor of
  \<open>tdobj\<close> runs \<open>DeleteNow\<close>. After \<open>exit\<close> no destructor of a local object runs.
\<close>

definition return_from_main :: "env \<Rightarrow> TemporaryDirectory \<Rightarrow> bool \<Rightarrow> world \<Rightarrow> int res" where
  "return_from_main e tdobj exit_code w =
     bind_res (DeleteNow e tdobj w) (\<lambda>u w. Inr (if exit_code then 1 else 0, w))"

definition main :: "Context \<Rightarrow> path option \<Rightarrow> env \<Rightarrow> world \<Rightarrow> int res" where
  "main ctx made e w =
     bind_res (Create made w) (\<lambda>td w.
       (let tdobj = configure_tdobj ctx td;
            tmpdir = Dir tdobj;
            w = w\<lparr>cleanup_set := True\<rparr> in
        if sigaction_errno e \<noteq> 0
        then error_sys e (sigaction_errno e) ''Unable to install signal handler'' w
        else
          (case try_block ctx tmpdir e w of
             Inl (Exception what, w) \<Rightarrow>
               bind_res (final_cleanup tdobj e (w\<lparr>err := err w @ [''Caught exception: '' @ what]\<rparr>))
                 (\<lambda>u w. return_from_main e tdobj True w)
           | Inl (s, w) \<Rightarrow> Inl (s, w)
           | Inr (u, w) \<Rightarrow>
               bind_res (final_cleanup tdobj e w) (\<lambda>u w. return_from_main e tdobj False w))))"

subsection \<open>Concrete runs\<close>

text \<open>
  A machine where only \<open>/tmp\<close> exists, an environment in which every external step
  succeeds and the mount table holds one local file system, and a run with two threads.
\<close>

definition w_init :: world where
  "w_init = \<lparr>dirs = {''/tmp''}, exports_file = None, cmds = [], err = [], cleanup_set = False\<rparr>"

definition env_ok :: env where
  "env_ok = \<lparr>mkdir_ec = (\<lambda>p. 0), sigaction_errno = 0, exports_open_ok = True,
             exportfs_ec = (\<lambda>k. 0), mount_ec = (\<lambda>d. 0),
             proc_mounts = Some [''/dev/sda1 / ext4 rw,relatime 0 0''],
             umount_ec = (\<lambda>k. 0), remove_ec = (\<lambda>k. 0), remove_all_ec = (\<lambda>k. 0),
             strerror = (\<lambda>n. ''error '' @ fmt_d (nat n))\<rparr>"

definition ctx2 :: Context where
  "ctx2 = \<lparr>preserve_temp = False, threads = 2, verbose = False\<rparr>"

text \<open>A run with four threads, so that there is a pair 3.\<close>

definition ctx4 :: Context where
  "ctx4 = \<lparr>preserve_temp = False, threads = 4, verbose = False\<rparr>"

text \<open>
  The temporary directory of that run, and a state in the middle of it: the directory and
  its \<open>mount\<close> subdirectory are made, the export file is open, the cleanup is registered.
\<close>

definition td_p :: TemporaryDirectory where
  "td_p = \<lparr>dir_m = ''/tmp/p'', preserve_m = False\<rparr>"

definition w_made :: world where
  "w_made = \<lparr>dirs = {''/tmp'', ''/tmp/p'', ''/tmp/p/mount''}, exports_file = Some [], cmds = [],
             err = [], cleanup_set = True\<rparr>"

text \<open>The state of a finished or stopped computation.\<close>

definition world_of :: "'a res \<Rightarrow> world" where
  "world_of r = (case r of Inl (s, w) \<Rightarrow> w | Inr (a, w) \<Rightarrow> w)"

text \<open>
  The line the scan writes to the error stream for a record it rejects: the text of the
  two \<open>EFMT\<close> calls (lines 273 and 276), chosen as the scan chooses.
\<close>

definition diagnostic :: "(string \<rightharpoonup> string) \<Rightarrow> string list \<Rightarrow> string" where
  "diagnostic m_to_c flds =
     (case m_to_c (flds ! 0) of
        None \<Rightarrow> not_found_msg (flds ! 0)
      | Some second \<Rightarrow> mismatch_msg (flds ! 0) (flds ! 1) second)"

subsection \<open>Reading names back\<close>

text \<open>
  The value of a digit and of a digit string in base \<open>b\<close>: the inverse of the formatting,
  used to show that different indices give different names.
\<close>

definition digit_val :: "char \<Rightarrow> nat" where
  "digit_val c = length (takeWhile (\<lambda>x. x \<noteq> c) ''0123456789abcdef'')"

definition read_back :: "nat \<Rightarrow> string \<Rightarrow> nat" where
  "read_back b s = foldl (\<lambda>a c. a * b + digit_val c) 0 s"

text \<open>
  The directories of pair \<open>d\<close>: \<open>mountdir / "d{:04}"\<close> with \<open>mountdir = tmpdir / "mount"\<close>
  (lines 140 and 148), and the same under \<open>client\<close> (lines 181 and 189).
\<close>

definition server_dir :: "path \<Rightarrow> nat \<Rightarrow> path" where
  "server_dir tmpdir d = numbered (path_append tmpdir ''mount'') d"

definition client_dir :: "path \<Rightarrow> nat \<Rightarrow> path" where
  "client_dir tmpdir d = numbered (path_append tmpdir ''client'') d"

text \<open>A state in which the temporary directory of the run has just been made.\<close>

definition w_fresh :: world where
  "w_fresh = \<lparr>dirs = {''/tmp'', ''/tmp/p''}, exports_file = None, cmds = [], err = [],
              cleanup_set = True\<rparr>"

subsection \<open>The lines of a text\<close>

text \<open>
  A text as the sequence of its lines, each ended by a newline (a last line may lack it),
  and the lines of the export file a computation leaves behind.
\<close>

fun split_lines :: "string \<Rightarrow> string \<Rightarrow> string list" where
  "split_lines cur [] = (if cur = [] then [] else [cur])"
| "split_lines cur (c # cs) = (if c = NL then cur # split_lines [] cs else split_lines (cur @ [c]) cs)"

definition lines_of :: "string \<Rightarrow> string list" where
  "lines_of s = split_lines [] s"

definition export_lines :: "'a res \<Rightarrow> string list" where
  "export_lines r = (case exports_file (world_of r) of None \<Rightarrow> [] | Some content \<Rightarrow> lines_of content)"

text \<open>
  The form the specification gives for an entry of the export table,
  \<open><serverDir>\t*(<comma-separated options>)\<close>: the server directory, a tab, an opening
  parenthesis after a star, and a closing parenthesis at the end of the line.
\<close>

definition entry_form :: "path \<Rightarrow> string \<Rightarrow> bool" where
  "entry_form serverDir line = (prefix (serverDir @ [TAB] @ ''*('') line \<and> suffix '')'' line)"

section \<open>Properties\<close>

subsection \<open>Evaluation of concrete runs\<close>

lemma replicate_small:
  "replicate 1 c = [c]" "replicate 2 c = [c, c]" "replicate 3 c = [c, c, c]"
  by (simp_all add: numeral_2_eq_2 numeral_3_eq_3)

lemmas run_defs = replicate_small
  main_def w_init_def env_ok_def ctx2_def Create_def bind_res_def Dir_def try_block_def
  create_mount_dirs_def create_client_dirs_def configure_tdobj_def PreserveContents_def
  create_root_and_dirs_def create_directory_def path_append_def numbered_def
  create_numbered_dirs.simps fmt_04_def fmt_04x_def fmt_d_def pad0_def radix.simps digit_char_def
  write_exports_def write_entries.simps exportfs_def error_sys_def error_def Let_def
  map_together.simps make_barrier_def start_barrier_wait_def run_mounters.simps
  report_failures_def read_mounts_def check_mount_def final_cleanup_def cleanup_def
  sig_handler_def return_from_main_def DeleteNow_def remove_all_def under_def SPACE_def
  ios_failure_what_def
  world_of_def fsid_def export_opts_def export_entry_def quoted_def

subsection \<open>The tokens of a line\<close>

lemma split_fields_nonempty: "split_fields s \<noteq> []"
  by (induction s) (auto split: list.splits)

lemma split_fields_no_space: "SPACE \<notin> set s \<Longrightarrow> split_fields s = [s]"
  by (induction s) (auto split: list.splits)

lemma split_fields_length_ge2: "SPACE \<in> set s \<Longrightarrow> 2 \<le> length (split_fields s)"
proof (induction s)
  case Nil
  then show ?case by simp
next
  case (Cons c cs)
  show ?case
  proof (cases "c = SPACE")
    case True
    note c = this
    show ?thesis
    proof (cases "cs \<noteq> [] \<and> hd cs = SPACE")
      case True
      then have "SPACE \<in> set cs" by (cases cs) auto
      with Cons.IH True c show ?thesis by simp
    next
      case False
      have "1 \<le> length (split_fields cs)"
        using split_fields_nonempty [of cs] by (cases "split_fields cs") auto
      with False c show ?thesis by auto
    qed
  next
    case False
    with Cons.prems have "SPACE \<in> set cs" by auto
    with Cons.IH False show ?thesis by (auto split: list.splits)
  qed
qed

lemma split_fields_short_iff: "(length (split_fields s) < 2) = (SPACE \<notin> set s)"
  using split_fields_length_ge2 [of s] split_fields_no_space [of s] by fastforce

subsection \<open>The scan of the mount table\<close>

lemma scan_mounts_skip:
  "\<forall>r \<in> set pre. check_mount m_to_c r w = Inr ((), w) \<Longrightarrow>
   scan_mounts m_to_c (pre @ rest) w = scan_mounts m_to_c rest w"
  by (induction pre) auto

lemma not_found_msg_names: "sublist m (not_found_msg m)"
proof -
  have "not_found_msg m = (''Mount '' @ [SQUOTE]) @ m @ ([SQUOTE] @ '' not found in map'')"
    by (simp only: not_found_msg_def append_assoc)
  then show ?thesis by (simp only: sublist_appendI)
qed

lemma mismatch_msg_names: "sublist m (mismatch_msg m c found)"
proof -
  have "mismatch_msg m c found
          = (''Mount '' @ [SQUOTE]) @ m @ ([SQUOTE] @ '' expected mountpoint '' @ c @ '' found '' @ found)"
    by (simp only: mismatch_msg_def append_assoc)
  then show ?thesis by (simp only: sublist_appendI)
qed

lemma diagnostic_names_device: "sublist (flds ! 0) (diagnostic m_to_c flds)"
  by (simp add: diagnostic_def not_found_msg_names mismatch_msg_names split: option.splits)

lemma check_mount_mismatch:
  assumes "2 \<le> length (split_fields r)"
      and "split_fields r ! 1 = ''nfs'' \<or> split_fields r ! 1 = ''nfs4''"
      and "m_to_c (split_fields r ! 0) \<noteq> Some (split_fields r ! 1)"
  shows "check_mount m_to_c r w = Inl (Exit 1, w\<lparr>err := err w @ [diagnostic m_to_c (split_fields r)]\<rparr>)"
  using assms
  by (auto simp: check_mount_def Let_def error_def diagnostic_def split: option.splits)

text \<open>
  C4. The claim: the scan classifies a record by its file system type, the third field, and
  checks the records of type \<open>nfs\<close> or \<open>nfs4\<close> against the expected map. The loop tests
  \<open>fields[1]\<close>, the mount point, although its own comment puts the file system at index 2.
  Here a record of type \<open>nfs\<close> whose server directory is mounted on the wrong client
  directory is passed over, and the scan ends without complaint; and a record of type \<open>ext4\<close>
  mounted on a directory called \<open>nfs\<close> is checked against the map.
\<close>

theorem nfs_record_passed_over:
  "split_fields ''/tmp/p/mount/d0000 /tmp/p/client/d0001 nfs rw,relatime 0 0'' ! 2 = ''nfs''
   \<and> scan_mounts [''/tmp/p/mount/d0000'' \<mapsto> ''/tmp/p/client/d0000'']
        [''/tmp/p/mount/d0000 /tmp/p/client/d0001 nfs rw,relatime 0 0''] w = Inr ((), w)
   \<and> split_fields ''/dev/sdb1 nfs ext4 rw 0 0'' ! 2 = ''ext4''
   \<and> scan_mounts [''/tmp/p/mount/d0000'' \<mapsto> ''/tmp/p/client/d0000'']
        [''/dev/sdb1 nfs ext4 rw 0 0''] w
      = Inl (Exit 1, w\<lparr>err := err w @ [not_found_msg ''/dev/sdb1'']\<rparr>)"
  by (simp add: check_mount_def SPACE_def error_def)

text \<open>
  What the loop does with a record that passes its test of field 1: it stops at the first
  one whose field 0 is not a key of the map or is mapped to something other than field 1.
\<close>

lemma scan_stops_at_rejected_record:
  assumes "\<forall>r' \<in> set pre. check_mount m_to_c r' w = Inr ((), w)"
      and "2 \<le> length (split_fields r)"
      and "split_fields r ! 1 = ''nfs'' \<or> split_fields r ! 1 = ''nfs4''"
      and "m_to_c (split_fields r ! 0) \<noteq> Some (split_fields r ! 1)"
  shows "scan_mounts m_to_c (pre @ r # post) w
           = Inl (Exit 1, w\<lparr>err := err w @ [diagnostic m_to_c (split_fields r)]\<rparr>)
         \<and> sublist (split_fields r ! 0) (diagnostic m_to_c (split_fields r))"
  using assms scan_mounts_skip [of pre m_to_c w "r # post"] check_mount_mismatch [of r m_to_c w]
    diagnostic_names_device [of "split_fields r" m_to_c]
  by simp

lemma run_mismatch_unreported:
  "(case main ctx4 (Some ''/tmp/p'')
           (env_ok\<lparr>proc_mounts :=
              Some [''/tmp/p/mount/d0003 /tmp/p/client/d0000 nfs rw,relatime 0 0'']\<rparr>) w_init of
      Inr (c, w) \<Rightarrow> c = 0 \<and> err w = []
    | Inl x \<Rightarrow> False)"
  by (simp add: run_defs ctx4_def)

text \<open>
  C5. The claim: a record of the NFS family whose device is missing from the expected map,
  or is mapped to a client directory other than the record's mount point, ends the scan
  with a diagnostic that names the device, and the run counts as failed. The records the
  loop looks up are those whose mount point, not type, reads \<open>nfs\<close> or \<open>nfs4\<close>. So a record
  of type \<open>nfs\<close> for the server directory of pair 3, mounted on another directory than the
  client directory of pair 3, is let through, and so is a record of type \<open>nfs4\<close> for a device
  the map does not know: the scan reaches the end of the table and writes nothing. A whole
  run with four threads whose mount table shows the server directory of pair 3 mounted on
  the client directory of pair 0 returns 0 with an empty error stream.
\<close>

theorem mismatched_nfs_record_unreported:
  "split_fields ''/tmp/p/mount/d0003 /tmp/p/client/d0007 nfs rw,relatime 0 0'' ! 2 = ''nfs''
   \<and> scan_mounts [''/tmp/p/mount/d0003'' \<mapsto> ''/tmp/p/client/d0003'']
        [''/tmp/p/mount/d0003 /tmp/p/client/d0007 nfs rw,relatime 0 0''] w = Inr ((), w)
   \<and> split_fields ''127.0.0.1:/srv/other /mnt/other nfs4 rw,relatime 0 0'' ! 2 = ''nfs4''
   \<and> scan_mounts [''/tmp/p/mount/d0003'' \<mapsto> ''/tmp/p/client/d0003'']
        [''127.0.0.1:/srv/other /mnt/other nfs4 rw,relatime 0 0''] w = Inr ((), w)
   \<and> (case main ctx4 (Some ''/tmp/p'')
           (env_ok\<lparr>proc_mounts :=
              Some [''/tmp/p/mount/d0003 /tmp/p/client/d0000 nfs rw,relatime 0 0'']\<rparr>) w_init of
      Inr (c, w) \<Rightarrow> c = 0 \<and> err w = []
    | Inl x \<Rightarrow> False)"
  using run_mismatch_unreported
  by (simp add: check_mount_def SPACE_def)

text \<open>
  C10. The loop reads \<open>fields[1]\<close> of every line without looking at the number of tokens.
  The read is past the end of the vector exactly when the line has fewer than two tokens,
  which is exactly when it holds no space; the empty line is such a line.
\<close>

theorem field_access_in_bounds:
  "(check_mount m_to_c mount w = Inl (Undefined, w)) = (length (split_fields mount) < 2)
   \<and> (length (split_fields mount) < 2) = (SPACE \<notin> set mount)
   \<and> check_mount m_to_c [] w = Inl (Undefined, w)"
  by (auto simp: check_mount_def Let_def error_def split_fields_short_iff split: option.splits)

theorem field_access_in_bounds_witness:
  "check_mount Map.empty ''tmpfs'' w_init = Inl (Undefined, w_init)
   \<and> length (split_fields ''tmpfs'') < 2
   \<and> check_mount Map.empty ''tmpfs /run'' w_init \<noteq> Inl (Undefined, w_init)"
  using field_access_in_bounds [of Map.empty "''tmpfs''" w_init]
        field_access_in_bounds [of Map.empty "''tmpfs /run''" w_init]
  by (simp add: SPACE_def)

subsection \<open>Cleanup\<close>

lemma exportfs_cases:
  "exportfs e w =
     (if exportfs_ec e (count_list (cmds w) ExportfsRA) \<noteq> 0
      then Inl (Exit 1, w\<lparr>cmds := cmds w @ [ExportfsRA],
                 err := err w @ [''exportfs failed: ''
                          @ strerror e (exportfs_ec e (count_list (cmds w) ExportfsRA))]\<rparr>)
      else Inr (True, w\<lparr>cmds := cmds w @ [ExportfsRA]\<rparr>))"
  by (simp add: exportfs_def error_sys_def Let_def)

text \<open>
  C1. The claim: cleanup runs at most once; a trigger that comes after the first finds it
  consumed. The signal handler empties the slot after running the closure; the call at the
  end of main does not. Here main finishes its cleanup and an interrupt arrives before the
  process is gone: umount and exportfs are run a second time.
\<close>

theorem cleanup_runs_twice:
  "(case bind_res (final_cleanup td_p env_ok w_made) (\<lambda>u w. sig_handler td_p env_ok w) of
      Inr (u, w) \<Rightarrow> cmds w = [UmountAllNfs, ExportfsRA, UmountAllNfs, ExportfsRA]
    | Inl x \<Rightarrow> False)"
  by (simp add: run_defs td_p_def w_made_def)

text \<open>
  What a run of the closure does when umount can be launched and the export file can be
  removed: with \<open>--preserve\<close> every directory stays, however exportfs ends; without it, and
  when exportfs reports no error and \<open>remove_all\<close> does not fail, the temporary directory and
  everything under it are gone.
\<close>

lemma cleanup_effect:
  assumes "umount_ec e (count_list (cmds w) UmountAllNfs) = 0"
      and "remove_ec e (count_list (cmds w) UmountAllNfs) = 0"
  shows "(preserve_temp ctx \<longrightarrow>
            dirs (world_of (cleanup (configure_tdobj ctx td) e w)) = dirs w
            \<and> cmds (world_of (cleanup (configure_tdobj ctx td) e w)) = cmds w @ [UmountAllNfs, ExportfsRA]
            \<and> exports_file (world_of (cleanup (configure_tdobj ctx td) e w)) = None)
       \<and> (\<not> preserve_temp ctx \<and> \<not> preserve_m td \<and> dir_m td \<noteq> []
            \<and> exportfs_ec e (count_list (cmds w) ExportfsRA) = 0
            \<and> remove_all_ec e (Suc (count_list (cmds w) UmountAllNfs)) = 0 \<longrightarrow>
          (\<exists>w'. cleanup (configure_tdobj ctx td) e w = Inr ((), w')
             \<and> dirs w' = {p \<in> dirs w. \<not> under (dir_m td) p}
             \<and> dir_m td \<notin> dirs w'
             \<and> cmds w' = cmds w @ [UmountAllNfs, ExportfsRA]
             \<and> exports_file w' = None))"
  using assms
  by (auto simp: cleanup_def configure_tdobj_def PreserveContents_def exportfs_cases bind_res_def
       Let_def DeleteNow_def world_of_def remove_all_def under_def)

lemma cleanup_exportfs_fails:
  "(case cleanup (configure_tdobj ctx2 td_p) (env_ok\<lparr>exportfs_ec := (\<lambda>k. 2)\<rparr>) w_made of
      Inl (Exit c, w) \<Rightarrow>
        c = 1 \<and> cmds w = [UmountAllNfs, ExportfsRA] \<and> exports_file w = None
        \<and> ''/tmp/p'' \<in> dirs w \<and> ''/tmp/p/mount'' \<in> dirs w
    | Inl (s, w) \<Rightarrow> False
    | Inr x \<Rightarrow> False)"
  by (simp add: run_defs td_p_def w_made_def)

lemma run_cleanup_exportfs_fails:
  "(case main ctx2 (Some ''/tmp/p'')
           (env_ok\<lparr>exports_open_ok := False, exportfs_ec := (\<lambda>k. 2)\<rparr>) w_init of
      Inl (Exit c, w) \<Rightarrow>
        c = 1 \<and> cmds w = [UmountAllNfs, ExportfsRA] \<and> ''/tmp/p'' \<in> dirs w
    | Inl (s, w) \<Rightarrow> False
    | Inr x \<Rightarrow> False)"
  by (simp add: run_defs)

text \<open>
  C9. The claim: with \<open>--preserve\<close> the cleanup leaves the temporary directory and still
  unmounts, removes the export file and runs exportfs; without it the cleanup deletes the
  temporary directory. The closure runs exportfs before \<open>DeleteNow\<close>, and exportfs calls
  \<open>exit(1)\<close> when it reports an error. Here \<open>--preserve\<close> is not given and exportfs fails
  inside the cleanup: the process exits with 1 after umount, the removal of the export file
  and exportfs, and the temporary directory and its \<open>mount\<close> subdirectory are still there.
  The same happens in a whole run in which the export file cannot be opened (the exception
  is caught, the cleanup runs) and exportfs cannot be launched.
\<close>

theorem failed_exportfs_leaves_temp_root:
  "\<not> preserve_temp ctx2
   \<and> (case cleanup (configure_tdobj ctx2 td_p) (env_ok\<lparr>exportfs_ec := (\<lambda>k. 2)\<rparr>) w_made of
      Inl (Exit c, w) \<Rightarrow>
        c = 1 \<and> cmds w = [UmountAllNfs, ExportfsRA] \<and> exports_file w = None
        \<and> ''/tmp/p'' \<in> dirs w \<and> ''/tmp/p/mount'' \<in> dirs w
    | Inl (s, w) \<Rightarrow> False
    | Inr x \<Rightarrow> False)
   \<and> (case main ctx2 (Some ''/tmp/p'')
           (env_ok\<lparr>exports_open_ok := False, exportfs_ec := (\<lambda>k. 2)\<rparr>) w_init of
      Inl (Exit c, w) \<Rightarrow>
        c = 1 \<and> cmds w = [UmountAllNfs, ExportfsRA] \<and> ''/tmp/p'' \<in> dirs w
    | Inl (s, w) \<Rightarrow> False
    | Inr x \<Rightarrow> False)"
proof -
  have "\<not> preserve_temp ctx2" by (simp add: ctx2_def)
  with cleanup_exportfs_fails run_cleanup_exportfs_fails show ?thesis by (intro conjI)
qed

subsection \<open>Whole runs\<close>

lemma run_exportfs_fails:
  "(case main ctx2 (Some ''/tmp/p'') (env_ok\<lparr>exportfs_ec := (\<lambda>k. 2)\<rparr>) w_init of
      Inl (Exit c, w) \<Rightarrow>
        c = 1 \<and> cmds w = [ExportfsRA] \<and> ''/tmp/p'' \<in> dirs w \<and> exports_file w \<noteq> None
    | Inl (s, w) \<Rightarrow> False
    | Inr x \<Rightarrow> False)"
  by (simp add: run_defs)

lemma run_mkdir_fails:
  "(case main ctx2 (Some ''/tmp/p'')
           (env_ok\<lparr>mkdir_ec := (\<lambda>p. if p = ''/tmp/p/client/d0001'' then 13 else 0)\<rparr>) w_init of
      Inl (Exit c, w) \<Rightarrow>
        c = 1 \<and> cmds w = [ExportfsRA] \<and> ''/tmp/p'' \<in> dirs w \<and> exports_file w \<noteq> None
    | Inl (s, w) \<Rightarrow> False
    | Inr x \<Rightarrow> False)"
  by (simp add: run_defs)

lemma run_scan_fails:
  "(case main ctx2 (Some ''/tmp/p'')
           (env_ok\<lparr>proc_mounts := Some [''/srv/other nfs nfs rw 0 0'']\<rparr>) w_init of
      Inl (Exit c, w) \<Rightarrow>
        c = 1 \<and> UmountAllNfs \<notin> set (cmds w) \<and> ''/tmp/p'' \<in> dirs w \<and> exports_file w \<noteq> None
    | Inl (s, w) \<Rightarrow> False
    | Inr x \<Rightarrow> False)"
  by (simp add: run_defs)

lemma run_open_fails:
  "(case main ctx2 (Some ''/tmp/p'') (env_ok\<lparr>exports_open_ok := False\<rparr>) w_init of
      Inr (c, w) \<Rightarrow>
        c = 1 \<and> cmds w = [UmountAllNfs, ExportfsRA] \<and> ''/tmp/p'' \<notin> dirs w \<and> exports_file w = None
    | Inl x \<Rightarrow> False)"
  by (simp add: run_defs)

text \<open>
  C2. The claim: every fatal error runs the cleanup before the process exits with code 1.
  An export file that cannot be opened throws, is caught, and the cleanup runs. The other
  three go through \<open>error\<close> or \<open>error_sys\<close>, which call \<open>exit(1)\<close> on the spot: when
  exportfs reports an error, when a directory cannot be created, and when the scan rejects a
  record, the process ends with code 1 and no umount has run, the export file is still there
  and so is the temporary directory.
\<close>

theorem fatal_exit_skips_cleanup:
  "(case main ctx2 (Some ''/tmp/p'') (env_ok\<lparr>exportfs_ec := (\<lambda>k. 2)\<rparr>) w_init of
      Inl (Exit c, w) \<Rightarrow>
        c = 1 \<and> cmds w = [ExportfsRA] \<and> ''/tmp/p'' \<in> dirs w \<and> exports_file w \<noteq> None
    | Inl (s, w) \<Rightarrow> False
    | Inr x \<Rightarrow> False)
   \<and> (case main ctx2 (Some ''/tmp/p'')
           (env_ok\<lparr>mkdir_ec := (\<lambda>p. if p = ''/tmp/p/client/d0001'' then 13 else 0)\<rparr>) w_init of
      Inl (Exit c, w) \<Rightarrow>
        c = 1 \<and> cmds w = [ExportfsRA] \<and> ''/tmp/p'' \<in> dirs w \<and> exports_file w \<noteq> None
    | Inl (s, w) \<Rightarrow> False
    | Inr x \<Rightarrow> False)
   \<and> (case main ctx2 (Some ''/tmp/p'')
           (env_ok\<lparr>proc_mounts := Some [''/srv/other nfs nfs rw 0 0'']\<rparr>) w_init of
      Inl (Exit c, w) \<Rightarrow>
        c = 1 \<and> UmountAllNfs \<notin> set (cmds w) \<and> ''/tmp/p'' \<in> dirs w \<and> exports_file w \<noteq> None
    | Inl (s, w) \<Rightarrow> False
    | Inr x \<Rightarrow> False)
   \<and> (case main ctx2 (Some ''/tmp/p'') (env_ok\<lparr>exports_open_ok := False\<rparr>) w_init of
      Inr (c, w) \<Rightarrow>
        c = 1 \<and> cmds w = [UmountAllNfs, ExportfsRA] \<and> ''/tmp/p'' \<notin> dirs w \<and> exports_file w = None
    | Inl x \<Rightarrow> False)"
  using run_exportfs_fails run_mkdir_fails run_scan_fails run_open_fails
  by (intro conjI)

text \<open>
  C3. The claim: when a mounter returns a non-zero status the run goes on to the scan and
  the process exits with a non-zero code. The failures are counted and reported on the
  error stream, and the scan and the cleanup follow; but \<open>exit_code\<close> is set in the catch
  clause only. Here worker 1 of 2 returns 2, the scan finds nothing to reject, and main
  returns 0.
\<close>

theorem mount_failure_exits_zero:
  "(case main ctx2 (Some ''/tmp/p'') (env_ok\<lparr>mount_ec := (\<lambda>d. if d = 1 then 2 else 0)\<rparr>) w_init of
      Inr (c, w) \<Rightarrow>
        c = 0 \<and> err w = [''Got 1 mount failures'']
        \<and> cmds w = [ExportfsRA, MountNfs 0 ''/tmp/p/mount/d0000'' ''/tmp/p/client/d0000'',
                     MountNfs 1 ''/tmp/p/mount/d0001'' ''/tmp/p/client/d0001'',
                     UmountAllNfs, ExportfsRA]
    | Inl x \<Rightarrow> False)"
  by (simp add: run_defs)

subsection \<open>Names of the directories\<close>

lemma below_16_cases:
  "n < 16 \<Longrightarrow> n \<in> {0, 1, 2, 3, 4, 5, 6, 7, 8, 9, 10, 11, 12, 13, 14, 15::nat}"
  by simp arith

lemma digit_val_digit_char: "n < 16 \<Longrightarrow> digit_val (digit_char n) = n"
proof -
  assume "n < 16"
  then have "n \<in> {0, 1, 2, 3, 4, 5, 6, 7, 8, 9, 10, 11, 12, 13, 14, 15::nat}"
    by (rule below_16_cases)
  then show ?thesis
    by (auto simp: digit_val_def digit_char_def)
qed

lemma read_back_snoc: "read_back b (s @ [c]) = read_back b s * b + digit_val c"
  by (simp add: read_back_def)

lemma read_back_radix: "2 \<le> b \<Longrightarrow> b \<le> 16 \<Longrightarrow> read_back b (radix b n) = n"
proof (induction b n rule: radix.induct)
  case (1 b n)
  show ?case
  proof (cases "n < b")
    case True
    with 1 have "n < 16" by simp
    with True show ?thesis
      by (simp add: radix.simps [of b n] read_back_def digit_val_digit_char)
  next
    case False
    with 1 have ih: "read_back b (radix b (n div b)) = n div b" by simp
    have "n mod b < b" using 1(2) by simp
    then have "n mod b < 16" using 1(3) by simp
    with False 1 ih show ?thesis
      by (simp add: radix.simps [of b n] read_back_snoc digit_val_digit_char)
  qed
qed

lemma read_back_zeros: "read_back b (replicate k (CHR ''0'') @ s) = read_back b s"
proof -
  have z: "digit_val (CHR ''0'') = 0" by (simp add: digit_val_def)
  have "foldl (\<lambda>a c. a * b + digit_val c) 0 (replicate k (CHR ''0'')) = 0"
    by (induction k) (simp_all add: z)
  then show ?thesis by (simp add: read_back_def)
qed

lemma read_back_fmt_04: "read_back 10 (fmt_04 n) = n"
  by (simp add: fmt_04_def pad0_def read_back_zeros read_back_radix)

lemma read_back_fmt_04x: "read_back 16 (fmt_04x n) = n"
  by (simp add: fmt_04x_def pad0_def read_back_zeros read_back_radix)

lemma fmt_04_inj: "fmt_04 a = fmt_04 b \<Longrightarrow> a = b"
  by (metis read_back_fmt_04)

lemma fsid_inj: "fsid a = fsid b \<Longrightarrow> a = b"
  unfolding fsid_def by (metis read_back_fmt_04x same_append_eq)

lemma length_radix: "2 \<le> b \<Longrightarrow> 0 < k \<Longrightarrow> n < b ^ k \<Longrightarrow> length (radix b n) \<le> k"
proof (induction b n arbitrary: k rule: radix.induct)
  case (1 b n)
  show ?case
  proof (cases "n < b")
    case True
    with 1 show ?thesis by (simp add: radix.simps [of b n])
  next
    case False
    with 1(2) have nb: "\<not> (b < 2 \<or> n < b)" by simp
    obtain j where k: "k = Suc j" using 1(3) by (cases k) auto
    have "j \<noteq> 0" using False 1(4) k by (cases j) auto
    moreover have "n div b < b ^ j"
      using 1(4) k 1(2) by (simp add: less_mult_imp_div_less mult.commute)
    ultimately have "length (radix b (n div b)) \<le> j"
      using 1(1) [OF nb, of j] 1(2) by simp
    with nb k show ?thesis by (simp add: radix.simps [of b n])
  qed
qed

lemma radix_nonempty: "radix b n \<noteq> []"
  by (simp add: radix.simps [of b n])

lemma length_fmt_04: "n < 10000 \<Longrightarrow> length (fmt_04 n) = 4"
proof -
  assume "n < 10000"
  then have "length (radix 10 n) \<le> 4"
    using length_radix [of 10 4 n] by simp
  then show ?thesis by (simp add: fmt_04_def pad0_def)
qed

lemma path_append_rel: "q \<noteq> [] \<Longrightarrow> hd q \<noteq> CHR ''/'' \<Longrightarrow> path_append p q = path_append p [] @ q"
  by (simp add: path_append_def)

lemma numbered_eq: "numbered parent d = path_append parent [] @ ''d'' @ fmt_04 d"
  unfolding numbered_def by (rule path_append_rel) simp_all

lemma numbered_inj: "numbered parent a = numbered parent b \<Longrightarrow> a = b"
  by (simp add: numbered_eq fmt_04_inj)

lemma numbered_not_parent: "numbered parent d \<noteq> parent"
proof
  assume a: "numbered parent d = parent"
  have "length (path_append parent []) \<ge> length parent" by (simp add: path_append_def)
  then have "length (numbered parent d) > length parent" by (simp add: numbered_eq)
  with a show False by simp
qed

lemma create_numbered_dirs_ok:
  assumes "\<forall>k. d \<le> k \<longrightarrow> numbered parent k \<notin> dirs w"
      and "\<forall>k. mkdir_ec e (numbered parent k) = 0"
  shows "create_numbered_dirs e what parent n d acc w
           = Inr (acc @ map (numbered parent) [d..<nat n],
                  w\<lparr>dirs := dirs w \<union> numbered parent ` {d..<nat n}\<rparr>)"
  using assms
proof (induction e what parent n d acc w rule: create_numbered_dirs.induct)
  case (1 e what parent n d acc w)
  show ?case
  proof (cases "int d < n")
    case False
    then have "nat n \<le> d" by simp
    then show ?thesis using False by (simp add: create_numbered_dirs.simps [of e what parent n d acc w])
  next
    case True
    then have dn: "d < nat n" by simp
    let ?new = "numbered parent d"
    let ?w' = "w\<lparr>dirs := insert ?new (dirs w)\<rparr>"
    have fresh: "?new \<notin> dirs w" using 1(2) by simp
    have cd: "create_directory e ?new w = ((True, 0), ?w')"
      using fresh 1(3) by (simp add: create_directory_def)
    have fresh': "\<forall>k. Suc d \<le> k \<longrightarrow> numbered parent k \<notin> dirs ?w'"
    proof (intro allI impI)
      fix k assume k: "Suc d \<le> k"
      then have "numbered parent k \<noteq> ?new" using numbered_inj [of parent k d] by auto
      moreover have "numbered parent k \<notin> dirs w" using 1(2) k by simp
      ultimately show "numbered parent k \<notin> dirs ?w'" by simp
    qed
    have nn: "\<not> \<not> True" by simp
    have ih: "create_numbered_dirs e what parent n (Suc d) (acc @ [?new]) ?w'
           = Inr ((acc @ [?new]) @ map (numbered parent) [Suc d..<nat n],
                  ?w'\<lparr>dirs := dirs ?w' \<union> numbered parent ` {Suc d..<nat n}\<rparr>)"
      using "1.IH" [OF True refl cd [symmetric] refl nn fresh' 1(3)] .
    have s1: "(acc @ [?new]) @ map (numbered parent) [Suc d..<nat n] = acc @ map (numbered parent) [d..<nat n]"
      using dn by (simp add: upt_conv_Cons)
    have "{d..<nat n} = insert d {Suc d..<nat n}" using dn by auto
    then have s2: "dirs ?w' \<union> numbered parent ` {Suc d..<nat n} = dirs w \<union> numbered parent ` {d..<nat n}"
      by simp
    show ?thesis
      using True cd ih s1 s2
      by (simp add: create_numbered_dirs.simps [of e what parent n d acc w])
  qed
qed

lemma create_root_and_dirs_ok:
  assumes "rootdir \<notin> dirs w"
      and "\<forall>k. numbered rootdir k \<notin> dirs w"
      and "mkdir_ec e rootdir = 0"
      and "\<forall>k. mkdir_ec e (numbered rootdir k) = 0"
  shows "create_root_and_dirs e what_root what rootdir n w
           = Inr (map (numbered rootdir) [0..<nat n],
                  w\<lparr>dirs := dirs w \<union> {rootdir} \<union> numbered rootdir ` {0..<nat n}\<rparr>)"
proof -
  let ?w' = "w\<lparr>dirs := insert rootdir (dirs w)\<rparr>"
  have cd: "create_directory e rootdir w = ((True, 0), ?w')"
    using assms(1,3) by (simp add: create_directory_def)
  have "\<forall>k. 0 \<le> k \<longrightarrow> numbered rootdir k \<notin> dirs ?w'"
    using assms(2) numbered_not_parent [of rootdir] by simp
  then have "create_numbered_dirs e what rootdir n 0 [] ?w'
           = Inr ([] @ map (numbered rootdir) [0..<nat n],
                  ?w'\<lparr>dirs := dirs ?w' \<union> numbered rootdir ` {0..<nat n}\<rparr>)"
    using assms(4) by (rule create_numbered_dirs_ok)
  with cd show ?thesis by (simp add: create_root_and_dirs_def)
qed

lemma mount_root_eq: "path_append tmpdir ''mount'' = path_append tmpdir [] @ ''mount''"
  by (rule path_append_rel) simp_all

lemma client_root_eq: "path_append tmpdir ''client'' = path_append tmpdir [] @ ''client''"
  by (rule path_append_rel) simp_all

lemma server_dir_eq: "server_dir tmpdir d = path_append tmpdir [] @ ''mount/d'' @ fmt_04 d"
  by (simp add: server_dir_def numbered_eq mount_root_eq) (simp add: path_append_def)

lemma client_dir_eq: "client_dir tmpdir d = path_append tmpdir [] @ ''client/d'' @ fmt_04 d"
  by (simp add: client_dir_def numbered_eq client_root_eq) (simp add: path_append_def)

lemma below_fresh:
  assumes "tmpdir \<noteq> []" and "x \<noteq> []"
      and "\<forall>p \<in> dirs w. under tmpdir p \<longrightarrow> p = tmpdir"
  shows "path_append tmpdir [] @ x \<notin> dirs w"
proof
  assume a: "path_append tmpdir [] @ x \<in> dirs w"
  have "under tmpdir (path_append tmpdir [] @ x)"
    using assms(1) by (simp add: under_def)
  with a assms(3) have "path_append tmpdir [] @ x = tmpdir" by blast
  moreover have "length tmpdir \<le> length (path_append tmpdir [])"
    by (simp add: path_append_def)
  ultimately have "length tmpdir + length x \<le> length tmpdir"
    by (metis add_le_mono1 length_append)
  then show False using assms(2) by simp
qed

lemma server_dir_inj: "server_dir tmpdir a = server_dir tmpdir b \<Longrightarrow> a = b"
  unfolding server_dir_def by (rule numbered_inj)

lemma client_dir_inj: "client_dir tmpdir a = client_dir tmpdir b \<Longrightarrow> a = b"
  unfolding client_dir_def by (rule numbered_inj)

lemma distinct_server_dirs: "distinct (map (server_dir tmpdir) [0..<k])"
  by (simp add: distinct_map inj_on_def) (blast dest: server_dir_inj)

lemma distinct_client_dirs: "distinct (map (client_dir tmpdir) [0..<k])"
  by (simp add: distinct_map inj_on_def) (blast dest: client_dir_inj)

lemma server_not_client: "server_dir tmpdir i \<noteq> client_dir tmpdir j"
  by (simp add: server_dir_eq client_dir_eq)

lemma create_mount_dirs_ok:
  assumes "tmpdir \<noteq> []"
      and "\<forall>p \<in> dirs w. under tmpdir p \<longrightarrow> p = tmpdir"
      and "\<forall>p. mkdir_ec e p = 0"
  shows "create_mount_dirs e tmpdir n w
           = Inr (map (server_dir tmpdir) [0..<nat n],
                  w\<lparr>dirs := dirs w \<union> {path_append tmpdir ''mount''} \<union> server_dir tmpdir ` {0..<nat n}\<rparr>)"
proof -
  have 1: "path_append tmpdir ''mount'' \<notin> dirs w"
    unfolding mount_root_eq using assms(1) _ assms(2) by (rule below_fresh) simp
  have 2: "\<forall>k. numbered (path_append tmpdir ''mount'') k \<notin> dirs w"
  proof
    fix k
    have "path_append tmpdir [] @ (''mount/d'' @ fmt_04 k) \<notin> dirs w"
      using assms(1) _ assms(2) by (rule below_fresh) simp
    then show "numbered (path_append tmpdir ''mount'') k \<notin> dirs w"
      using server_dir_eq [of tmpdir k] by (simp add: server_dir_def)
  qed
  have s: "server_dir tmpdir = numbered (path_append tmpdir ''mount'')"
    by (rule ext) (simp add: server_dir_def)
  show ?thesis
    unfolding create_mount_dirs_def s
    using 1 2 assms(3) by (intro create_root_and_dirs_ok) simp_all
qed

lemma create_client_dirs_ok:
  assumes "tmpdir \<noteq> []"
      and "\<forall>p \<in> dirs w. under tmpdir p \<longrightarrow> p = tmpdir"
      and "\<forall>p. mkdir_ec e p = 0"
      and "dirs w' = dirs w \<union> {path_append tmpdir ''mount''} \<union> server_dir tmpdir ` {0..<k}"
  shows "create_client_dirs e tmpdir n w'
           = Inr (map (client_dir tmpdir) [0..<nat n],
                  w'\<lparr>dirs := dirs w' \<union> {path_append tmpdir ''client''} \<union> client_dir tmpdir ` {0..<nat n}\<rparr>)"
proof -
  have a: "path_append tmpdir ''client'' \<notin> dirs w"
    unfolding client_root_eq using assms(1) _ assms(2) by (rule below_fresh) simp
  have b: "path_append tmpdir ''client'' \<noteq> path_append tmpdir ''mount''"
    by (simp add: client_root_eq mount_root_eq)
  have c: "\<forall>i. path_append tmpdir ''client'' \<noteq> server_dir tmpdir i"
    by (simp add: client_root_eq server_dir_eq)
  have 1: "path_append tmpdir ''client'' \<notin> dirs w'"
    using a b c unfolding assms(4) by blast
  have 2: "\<forall>j. numbered (path_append tmpdir ''client'') j \<notin> dirs w'"
  proof
    fix j
    have "path_append tmpdir [] @ (''client/d'' @ fmt_04 j) \<notin> dirs w"
      using assms(1) _ assms(2) by (rule below_fresh) simp
    then have d: "client_dir tmpdir j \<notin> dirs w"
      by (simp add: client_dir_eq)
    have e: "client_dir tmpdir j \<noteq> path_append tmpdir ''mount''"
      by (simp add: client_dir_eq mount_root_eq)
    have f: "\<forall>i. client_dir tmpdir j \<noteq> server_dir tmpdir i"
      using server_not_client [of tmpdir _ j] by metis
    have "client_dir tmpdir j \<notin> dirs w'"
      using d e f unfolding assms(4) by blast
    then show "numbered (path_append tmpdir ''client'') j \<notin> dirs w'"
      by (simp add: client_dir_def)
  qed
  have s: "client_dir tmpdir = numbered (path_append tmpdir ''client'')"
    by (rule ext) (simp add: client_dir_def)
  show ?thesis
    unfolding create_client_dirs_def s
    using 1 2 assms(3) by (intro create_root_and_dirs_ok) simp_all
qed

lemma map_together_ok:
  assumes "nat n \<le> length mdir" and "nat n \<le> length cdir"
      and "distinct (take (nat n) mdir)"
  shows "\<exists>m'. map_together mdir cdir n d m = Some m'
            \<and> (\<forall>k. d \<le> k \<and> k < nat n \<longrightarrow> m' (mdir ! k) = Some (cdir ! k))
            \<and> (\<forall>x. x \<notin> (\<lambda>k. mdir ! k) ` {d..<nat n} \<longrightarrow> m' x = m x)"
  using assms
proof (induction mdir cdir n d m rule: map_together.induct)
  case (1 mdir cdir n d m)
  show ?case
  proof (cases "int d < n")
    case False
    then have "nat n \<le> d" by simp
    with False show ?thesis by (auto simp: map_together.simps [of mdir cdir n d m])
  next
    case True
    then have dn: "d < nat n" by simp
    then have inb: "d < length mdir \<and> d < length cdir" using 1(2,3) by simp
    let ?m1 = "m(mdir ! d \<mapsto> cdir ! d)"
    from "1.IH" [OF True inb 1(2) 1(3) 1(4)]
    obtain m' where m': "map_together mdir cdir n (Suc d) ?m1 = Some m'"
      "\<forall>k. Suc d \<le> k \<and> k < nat n \<longrightarrow> m' (mdir ! k) = Some (cdir ! k)"
      "\<forall>x. x \<notin> (\<lambda>k. mdir ! k) ` {Suc d..<nat n} \<longrightarrow> m' x = ?m1 x"
      by blast
    have nd: "mdir ! d \<notin> (\<lambda>k. mdir ! k) ` {Suc d..<nat n}"
    proof
      assume "mdir ! d \<in> (\<lambda>k. mdir ! k) ` {Suc d..<nat n}"
      then obtain k where k: "Suc d \<le> k" "k < nat n" "mdir ! d = mdir ! k" by auto
      have e: "take (nat n) mdir ! d = take (nat n) mdir ! k" using k dn by simp
      have l1: "d < length (take (nat n) mdir)" using dn 1(2) by simp
      have l2: "k < length (take (nat n) mdir)" using k 1(2) by simp
      have "d = k" using nth_eq_iff_index_eq [OF 1(4) l1 l2] e by blast
      with k show False by simp
    qed
    have eq: "map_together mdir cdir n d m = Some m'"
      using True inb m'(1) by (simp add: map_together.simps [of mdir cdir n d m])
    have A: "\<forall>k. d \<le> k \<and> k < nat n \<longrightarrow> m' (mdir ! k) = Some (cdir ! k)"
    proof (intro allI impI)
      fix k assume k: "d \<le> k \<and> k < nat n"
      show "m' (mdir ! k) = Some (cdir ! k)"
      proof (cases "k = d")
        case True
        then show ?thesis using m'(3) nd by simp
      next
        case False
        with k have "Suc d \<le> k \<and> k < nat n" by simp
        with m'(2) show ?thesis by blast
      qed
    qed
    have B: "\<forall>x. x \<notin> (\<lambda>k. mdir ! k) ` {d..<nat n} \<longrightarrow> m' x = m x"
    proof (intro allI impI)
      fix x assume x: "x \<notin> (\<lambda>k. mdir ! k) ` {d..<nat n}"
      have "{d..<nat n} = insert d {Suc d..<nat n}" using dn by auto
      with x have "x \<noteq> mdir ! d" "x \<notin> (\<lambda>k. mdir ! k) ` {Suc d..<nat n}" by auto
      with m'(3) show "m' x = m x" by simp
    qed
    from eq A B show ?thesis by blast
  qed
qed

text \<open>
  C6. For every number of threads \<open>n\<close> (a negative one counts as none), in a fresh temporary
  directory where the system lets every directory be made, the first loop returns the
  \<open>nat n\<close> server directories \<open>tmpdir/mount/dNNNN\<close> in the order of their index and the
  second the \<open>nat n\<close> client directories \<open>tmpdir/client/dNNNN\<close>, and exactly these and the two
  roots are added to the disk. The number is padded with zeros to four digits (index 7 gives
  \<open>0007\<close>; every index below 10000 gives four characters). No two server directories are equal,
  no two client directories, and no server directory is a client directory; the map built
  from the two vectors sends the server directory of each index to the client directory of
  the same index and has no other key.
\<close>

theorem allocation_unique_dirs:
  assumes "tmpdir \<noteq> []"
      and "\<forall>p \<in> dirs w. under tmpdir p \<longrightarrow> p = tmpdir"
      and "\<forall>p. mkdir_ec e p = 0"
  shows "create_mount_dirs e tmpdir n w
           = Inr (map (server_dir tmpdir) [0..<nat n],
                  w\<lparr>dirs := dirs w \<union> {path_append tmpdir ''mount''}
                                \<union> server_dir tmpdir ` {0..<nat n}\<rparr>)
       \<and> (\<forall>w'. dirs w' = dirs w \<union> {path_append tmpdir ''mount''} \<union> server_dir tmpdir ` {0..<nat n}
              \<longrightarrow> create_client_dirs e tmpdir n w'
                   = Inr (map (client_dir tmpdir) [0..<nat n],
                          w'\<lparr>dirs := dirs w' \<union> {path_append tmpdir ''client''}
                                         \<union> client_dir tmpdir ` {0..<nat n}\<rparr>))
       \<and> length (map (server_dir tmpdir) [0..<nat n]) = nat n
       \<and> length (map (client_dir tmpdir) [0..<nat n]) = nat n
       \<and> distinct (map (server_dir tmpdir) [0..<nat n])
       \<and> distinct (map (client_dir tmpdir) [0..<nat n])
       \<and> (\<forall>i j. server_dir tmpdir i \<noteq> client_dir tmpdir j)
       \<and> (\<forall>d. server_dir tmpdir d = path_append (path_append tmpdir ''mount'') (''d'' @ fmt_04 d)
              \<and> client_dir tmpdir d = path_append (path_append tmpdir ''client'') (''d'' @ fmt_04 d))
       \<and> fmt_04 7 = ''0007''
       \<and> (\<forall>d < 10000. length (fmt_04 d) = 4)
       \<and> (\<exists>m_to_c. map_together (map (server_dir tmpdir) [0..<nat n])
                       (map (client_dir tmpdir) [0..<nat n]) n 0 Map.empty = Some m_to_c
             \<and> (\<forall>d < nat n. m_to_c (server_dir tmpdir d) = Some (client_dir tmpdir d))
             \<and> dom m_to_c = server_dir tmpdir ` {0..<nat n})"
proof -
  let ?mdir = "map (server_dir tmpdir) [0..<nat n]"
  let ?cdir = "map (client_dir tmpdir) [0..<nat n]"
  have 1: "create_mount_dirs e tmpdir n w
           = Inr (?mdir, w\<lparr>dirs := dirs w \<union> {path_append tmpdir ''mount''}
                                \<union> server_dir tmpdir ` {0..<nat n}\<rparr>)"
    using assms by (rule create_mount_dirs_ok)
  have 2: "\<forall>w'. dirs w' = dirs w \<union> {path_append tmpdir ''mount''} \<union> server_dir tmpdir ` {0..<nat n}
              \<longrightarrow> create_client_dirs e tmpdir n w'
                   = Inr (?cdir, w'\<lparr>dirs := dirs w' \<union> {path_append tmpdir ''client''}
                                         \<union> client_dir tmpdir ` {0..<nat n}\<rparr>)"
  proof (intro allI impI)
    fix w' :: world
    assume "dirs w' = dirs w \<union> {path_append tmpdir ''mount''} \<union> server_dir tmpdir ` {0..<nat n}"
    with assms show "create_client_dirs e tmpdir n w'
                   = Inr (?cdir, w'\<lparr>dirs := dirs w' \<union> {path_append tmpdir ''client''}
                                         \<union> client_dir tmpdir ` {0..<nat n}\<rparr>)"
      by (rule create_client_dirs_ok)
  qed
  have 3: "\<forall>d. server_dir tmpdir d = path_append (path_append tmpdir ''mount'') (''d'' @ fmt_04 d)
              \<and> client_dir tmpdir d = path_append (path_append tmpdir ''client'') (''d'' @ fmt_04 d)"
    by (simp add: server_dir_def client_dir_def numbered_def)
  have 4: "fmt_04 7 = ''0007''"
    by (simp add: fmt_04_def pad0_def radix.simps digit_char_def replicate_small)
  have 5: "\<forall>d < 10000. length (fmt_04 d) = 4"
    by (simp add: length_fmt_04)
  have "nat n \<le> length ?mdir" "nat n \<le> length ?cdir" "distinct (take (nat n) ?mdir)"
    by (simp_all add: distinct_server_dirs)
  from map_together_ok [OF this, of 0 Map.empty]
  obtain m' where m': "map_together ?mdir ?cdir n 0 Map.empty = Some m'"
      "\<forall>k. 0 \<le> k \<and> k < nat n \<longrightarrow> m' (?mdir ! k) = Some (?cdir ! k)"
      "\<forall>x. x \<notin> (\<lambda>k. ?mdir ! k) ` {0..<nat n} \<longrightarrow> m' x = Map.empty x"
    by blast
  have a: "\<forall>d < nat n. m' (server_dir tmpdir d) = Some (client_dir tmpdir d)"
    using m'(2) by simp
  have img: "(\<lambda>k. ?mdir ! k) ` {0..<nat n} = server_dir tmpdir ` {0..<nat n}"
    by (rule image_cong) simp_all
  have b: "dom m' = server_dir tmpdir ` {0..<nat n}"
  proof
    show "dom m' \<subseteq> server_dir tmpdir ` {0..<nat n}"
      using m'(3) unfolding img by (auto simp: dom_def)
    show "server_dir tmpdir ` {0..<nat n} \<subseteq> dom m'"
      using a by (auto simp: dom_def)
  qed
  have 6: "\<exists>m_to_c. map_together ?mdir ?cdir n 0 Map.empty = Some m_to_c
             \<and> (\<forall>d < nat n. m_to_c (server_dir tmpdir d) = Some (client_dir tmpdir d))
             \<and> dom m_to_c = server_dir tmpdir ` {0..<nat n}"
    using m'(1) a b by blast
  have 7: "length ?mdir = nat n" "length ?cdir = nat n" by simp_all
  have 8: "distinct ?mdir" "distinct ?cdir"
    by (rule distinct_server_dirs, rule distinct_client_dirs)
  have 9: "\<forall>i j. server_dir tmpdir i \<noteq> client_dir tmpdir j"
    using server_not_client [of tmpdir] by blast
  from 1 2 7 8 9 3 4 5 6 show ?thesis by (intro conjI)
qed

theorem allocation_unique_dirs_witness:
  "create_mount_dirs env_ok ''/tmp/p'' 2 w_fresh
     = Inr (map (server_dir ''/tmp/p'') [0..<nat 2],
            w_fresh\<lparr>dirs := dirs w_fresh \<union> {path_append ''/tmp/p'' ''mount''}
                                \<union> server_dir ''/tmp/p'' ` {0..<nat 2}\<rparr>)
   \<and> server_dir ''/tmp/p'' 1 = ''/tmp/p/mount/d0001''
   \<and> client_dir ''/tmp/p'' 0 = ''/tmp/p/client/d0000''"
proof -
  have h1: "''/tmp/p'' \<noteq> []" by simp
  have h2: "\<forall>p \<in> dirs w_fresh. under ''/tmp/p'' p \<longrightarrow> p = ''/tmp/p''"
    by (simp add: w_fresh_def under_def path_append_def)
  have h3: "\<forall>p. mkdir_ec env_ok p = 0" by (simp add: env_ok_def)
  note T = allocation_unique_dirs [OF h1 h2 h3, of 2]
  have a: "server_dir ''/tmp/p'' 1 = ''/tmp/p/mount/d0001''"
    by (simp add: server_dir_eq path_append_def fmt_04_def pad0_def radix.simps digit_char_def
          replicate_small)
  have b: "client_dir ''/tmp/p'' 0 = ''/tmp/p/client/d0000''"
    by (simp add: client_dir_eq path_append_def fmt_04_def pad0_def radix.simps digit_char_def
          replicate_small)
  from T [THEN conjunct1] a b show ?thesis by (intro conjI)
qed

subsection \<open>The export table\<close>

lemma split_lines_line:
  "NL \<notin> set l \<Longrightarrow> split_lines cur (l @ NL # rest) = (cur @ l) # split_lines [] rest"
  by (induction l arbitrary: cur) auto

lemma lines_of_concat:
  "\<forall>l \<in> set ls. NL \<notin> set l \<Longrightarrow> lines_of (concat (map (\<lambda>l. l @ [NL]) ls)) = ls"
proof (induction ls)
  case Nil
  then show ?case by (simp add: lines_of_def)
next
  case (Cons l ls)
  then have "NL \<notin> set l" by simp
  then have "split_lines [] (l @ NL # concat (map (\<lambda>l. l @ [NL]) ls))
               = ([] @ l) # split_lines [] (concat (map (\<lambda>l. l @ [NL]) ls))"
    by (rule split_lines_line)
  with Cons show ?case by (simp add: lines_of_def)
qed

lemma digit_char_not_NL: "digit_char n \<noteq> NL"
proof -
  have "n mod 16 < length ''0123456789abcdef''" by simp
  then have "digit_char n \<in> set ''0123456789abcdef''"
    unfolding digit_char_def by (rule nth_mem)
  then show ?thesis by (auto simp: NL_def)
qed

lemma radix_no_NL: "NL \<notin> set (radix b n)"
proof (induction b n rule: radix.induct)
  case (1 b n)
  show ?case
  proof (cases "b < 2 \<or> n < b")
    case True
    then show ?thesis using digit_char_not_NL [of n] by (simp add: radix.simps [of b n])
  next
    case False
    with 1 have "NL \<notin> set (radix b (n div b))" by simp
    with False show ?thesis using digit_char_not_NL [of "n mod b"]
      by (simp add: radix.simps [of b n])
  qed
qed

lemma fsid_no_NL: "NL \<notin> set (fsid d)"
  using radix_no_NL [of 16 d] by (simp add: fsid_def fmt_04x_def pad0_def NL_def)

lemma quoted_no_NL: "NL \<notin> set s \<Longrightarrow> NL \<notin> set (quoted s)"
  by (auto simp: quoted_def NL_def DQUOTE_def BACKSLASH_def split: if_splits)

lemma export_entry_no_NL: "NL \<notin> set md \<Longrightarrow> NL \<notin> set (export_entry md (export_opts (fsid d)))"
  using fsid_no_NL [of d] quoted_no_NL [of md]
  by (simp add: export_entry_def export_opts_def) (simp add: NL_def TAB_def)

lemma write_entries_ok:
  assumes "nat n \<le> length mdir"
  shows "write_entries mdir n d muuid ef
           = Some (muuid @ map fsid [d..<nat n],
                   ef @ concat (map (\<lambda>k. export_entry (mdir ! k) (export_opts (fsid k)) @ [NL])
                                    [d..<nat n]))"
  using assms
proof (induction mdir n d muuid ef rule: write_entries.induct)
  case (1 mdir n d muuid ef)
  show ?case
  proof (cases "int d < n")
    case False
    then have "nat n \<le> d" by simp
    with False show ?thesis by (simp add: write_entries.simps [of mdir n d muuid ef])
  next
    case True
    then have dn: "d < nat n" by simp
    then have inb: "d < length mdir" using 1(2) by simp
    have ih: "write_entries mdir n (Suc d) (muuid @ [fsid d])
                (ef @ export_entry (mdir ! d) (export_opts (fsid d)) @ [NL])
           = Some ((muuid @ [fsid d]) @ map fsid [Suc d..<nat n],
                   (ef @ export_entry (mdir ! d) (export_opts (fsid d)) @ [NL])
                     @ concat (map (\<lambda>k. export_entry (mdir ! k) (export_opts (fsid k)) @ [NL])
                                    [Suc d..<nat n]))"
      using "1.IH" [OF True inb refl refl 1(2)] .
    have u: "[d..<nat n] = d # [Suc d..<nat n]" using dn by (simp add: upt_conv_Cons)
    show ?thesis
      using True inb ih
      by (simp add: write_entries.simps [of mdir n d muuid ef] u Let_def)
  qed
qed

lemma distinct_fsids: "distinct (map fsid [0..<k])"
  by (simp add: distinct_map inj_on_def) (blast dest: fsid_inj)

text \<open>
  C7, as the specification states it: every entry is a line of the form
  \<open><serverDir>\t*(<options>)\<close>. The stream receives \<open>mdir[d]\<close>, a \<open>std::filesystem::path\<close>,
  which is written between double quotes: with one thread the file has three lines and the
  one between the markers starts with a double quote, not with the server directory.
\<close>

theorem export_entry_not_bare_path:
  "length (export_lines (write_exports env_ok [''/tmp/p/mount/d0000''] 1 w_fresh)) = 3
   \<and> \<not> entry_form ''/tmp/p/mount/d0000''
         (export_lines (write_exports env_ok [''/tmp/p/mount/d0000''] 1 w_fresh) ! 1)
   \<and> hd (export_lines (write_exports env_ok [''/tmp/p/mount/d0000''] 1 w_fresh) ! 1) = DQUOTE"
  by (simp add: export_lines_def world_of_def write_exports_def write_entries.simps env_ok_def
        w_fresh_def lines_of_def export_entry_def export_opts_def fsid_def fmt_04x_def pad0_def
        radix.simps digit_char_def replicate_small quoted_def entry_form_def
        BEGIN_MARK_def END_MARK_def NL_def TAB_def DQUOTE_def BACKSLASH_def Let_def)

text \<open>
  C7, amended. When the export file can be opened and no server directory holds a newline,
  the file written has the begin marker, one line for each index below \<open>nat n\<close> in order, and
  the end marker, and nothing else. The line of index \<open>d\<close> is the server directory in double
  quotes (\<open>std::quoted\<close>), a tab, and \<open>*(rw,no_subtree_check,no_root_squash,fsid=F)\<close> where
  \<open>F\<close> is \<open>00000000-0000-0000-0000-00000000\<close> followed by \<open>d\<close> in hexadecimal, padded to four
  digits. The ids of different indices differ.
\<close>

theorem export_table_quoted_entries:
  assumes "exports_open_ok e"
      and "nat n \<le> length mdir"
      and "\<forall>d < nat n. NL \<notin> set (mdir ! d)"
  shows "write_exports e mdir n w
           = Inr (map fsid [0..<nat n],
                  w\<lparr>exports_file := Some (concat (map (\<lambda>l. l @ [NL])
                       (BEGIN_MARK
                        # map (\<lambda>d. quoted (mdir ! d) @ [TAB]
                                    @ ''*(rw,no_subtree_check,no_root_squash,fsid='' @ fsid d @ '')'')
                              [0..<nat n]
                        @ [END_MARK])))\<rparr>)
       \<and> export_lines (write_exports e mdir n w)
           = BEGIN_MARK
             # map (\<lambda>d. quoted (mdir ! d) @ [TAB]
                         @ ''*(rw,no_subtree_check,no_root_squash,fsid='' @ fsid d @ '')'')
                   [0..<nat n]
             @ [END_MARK]
       \<and> length (export_lines (write_exports e mdir n w)) = nat n + 2
       \<and> distinct (map fsid [0..<nat n])"
proof -
  let ?entry = "\<lambda>d. quoted (mdir ! d) @ [TAB]
                     @ ''*(rw,no_subtree_check,no_root_squash,fsid='' @ fsid d @ '')''"
  let ?ls = "BEGIN_MARK # map ?entry [0..<nat n] @ [END_MARK]"
  have e: "\<And>k. export_entry (mdir ! k) (export_opts (fsid k)) = ?entry k"
    by (simp add: export_entry_def export_opts_def)
  have we: "write_entries mdir n 0 [] (BEGIN_MARK @ [NL])
           = Some ([] @ map fsid [0..<nat n],
                   (BEGIN_MARK @ [NL]) @ concat (map (\<lambda>k. export_entry (mdir ! k) (export_opts (fsid k)) @ [NL])
                                    [0..<nat n]))"
    using assms(2) by (rule write_entries_ok)
  have c: "((BEGIN_MARK @ [NL]) @ concat (map (\<lambda>k. export_entry (mdir ! k) (export_opts (fsid k)) @ [NL])
                                    [0..<nat n])) @ END_MARK @ [NL]
           = concat (map (\<lambda>l. l @ [NL]) ?ls)"
    by (simp add: e comp_def)
  have 1: "write_exports e mdir n w = Inr (map fsid [0..<nat n], w\<lparr>exports_file := Some (concat (map (\<lambda>l. l @ [NL]) ?ls))\<rparr>)"
    using assms(1) we c by (simp add: write_exports_def)
  have nl: "\<forall>l \<in> set ?ls. NL \<notin> set l"
  proof
    fix l assume "l \<in> set ?ls"
    then consider "l = BEGIN_MARK" | "l = END_MARK" | d where "d < nat n" "l = ?entry d"
      by auto
    then show "NL \<notin> set l"
    proof cases
      case 1
      then show ?thesis by (simp add: BEGIN_MARK_def NL_def)
    next
      case 2
      then show ?thesis by (simp add: END_MARK_def NL_def)
    next
      case 3
      then have "NL \<notin> set (mdir ! d)" using assms(3) by simp
      then have "NL \<notin> set (export_entry (mdir ! d) (export_opts (fsid d)))"
        by (rule export_entry_no_NL)
      then show ?thesis using 3 e [of d] by simp
    qed
  qed
  have 2: "export_lines (write_exports e mdir n w) = ?ls"
    unfolding 1 export_lines_def world_of_def using lines_of_concat [OF nl] by simp
  have 3: "length (export_lines (write_exports e mdir n w)) = nat n + 2"
    unfolding 2 by simp
  from 1 2 3 distinct_fsids [of "nat n"] show ?thesis by (intro conjI)
qed

theorem export_table_quoted_entries_witness:
  "export_lines (write_exports env_ok [''/tmp/p/mount/d0000'', ''/tmp/p/mount/d0001''] 2 w_fresh)
     = [''### BEGIN paramount'',
        [DQUOTE] @ ''/tmp/p/mount/d0000'' @ [DQUOTE, TAB]
          @ ''*(rw,no_subtree_check,no_root_squash,fsid=00000000-0000-0000-0000-000000000000)'',
        [DQUOTE] @ ''/tmp/p/mount/d0001'' @ [DQUOTE, TAB]
          @ ''*(rw,no_subtree_check,no_root_squash,fsid=00000000-0000-0000-0000-000000000001)'',
        ''### END paramount'']"
proof -
  have h1: "exports_open_ok env_ok" by (simp add: env_ok_def)
  have h2: "nat 2 \<le> length [''/tmp/p/mount/d0000'', ''/tmp/p/mount/d0001'']" by simp
  have h3: "\<forall>d < nat 2. NL \<notin> set ([''/tmp/p/mount/d0000'', ''/tmp/p/mount/d0001''] ! d)"
  proof (intro allI impI)
    fix d :: nat
    assume "d < nat 2"
    then have "d = 0 \<or> d = 1" by auto
    then show "NL \<notin> set ([''/tmp/p/mount/d0000'', ''/tmp/p/mount/d0001''] ! d)"
      by (auto simp: NL_def)
  qed
  have s: "[0..<2] = [0, 1]" by (simp add: upt_rec)
  have f: "fsid 0 = ''00000000-0000-0000-0000-000000000000''" "fsid (Suc 0) = ''00000000-0000-0000-0000-000000000001''"
    by (simp_all add: fsid_def fmt_04x_def pad0_def radix.simps digit_char_def replicate_small)
  have q: "quoted ''/tmp/p/mount/d0000'' = [DQUOTE] @ ''/tmp/p/mount/d0000'' @ [DQUOTE]"
          "quoted ''/tmp/p/mount/d0001'' = [DQUOTE] @ ''/tmp/p/mount/d0001'' @ [DQUOTE]"
    by (simp_all add: quoted_def DQUOTE_def BACKSLASH_def)
  from export_table_quoted_entries [OF h1 h2 h3, of w_fresh, THEN conjunct2, THEN conjunct1]
  show ?thesis
    by (simp add: s f q BEGIN_MARK_def END_MARK_def)
qed

end
